theory Spec2Isabelle
  imports Complex_Main "HOL-Library.AList"
begin

section \<open>Python strings\<close>

text \<open>
  A Python \<open>str\<close> is modelled as a \<open>string\<close> whose characters are its code points, which
  covers the code points below 256. \<open>isspace\<close> is \<open>str.isspace\<close> on that range: the
  code points 9 to 13, 28 to 32, 133 and 160.
\<close>

definition isspace :: "char \<Rightarrow> bool" where
  "isspace c =
     (let n = (of_char c :: nat)
      in (9 \<le> n \<and> n \<le> 13) \<or> (28 \<le> n \<and> n \<le> 32) \<or> n = 133 \<or> n = 160)"

definition str_lstrip :: "string \<Rightarrow> string" where
  "str_lstrip s = dropWhile isspace s"

definition str_rstrip :: "string \<Rightarrow> string" where
  "str_rstrip s = rev (dropWhile isspace (rev s))"

text \<open>\<open>str.strip()\<close> with no argument: leading and trailing whitespace removed.\<close>

definition str_strip :: "string \<Rightarrow> string" where
  "str_strip s = str_rstrip (str_lstrip s)"

text \<open>
  \<open>str.lower()\<close> on the code points below 256: the letters A to Z and the accented
  capitals 192 to 222 (without the multiplication sign 215) move up by 32.
\<close>

definition lower_char :: "char \<Rightarrow> char" where
  "lower_char c =
     (let n = (of_char c :: nat)
      in if (65 \<le> n \<and> n \<le> 90) \<or> (192 \<le> n \<and> n \<le> 222 \<and> n \<noteq> 215)
         then char_of (n + 32) else c)"

definition str_lower :: "string \<Rightarrow> string" where
  "str_lower s = map lower_char s"

section \<open>sentiment.py: SentimentAnalyzer\<close>

text \<open>
  The result dictionary of \<open>analyze_sentiment\<close>, with its keys \<open>sentiment\<close> and \<open>score\<close>.
  A score is a Python float; it is modelled as a real number. The comparisons of the source
  are between finite doubles, and no double lies between \<open>1/20\<close> and the double written
  \<open>0.05\<close>, so the comparisons with the real \<open>0.05\<close> decide the same way.
\<close>

record sentiment_result =
  res_sentiment :: string
  res_score :: real

text \<open>
  \<open>polarity_scores\<close> stands for \<open>self.analyzer.polarity_scores(text)['compound']\<close>, the
  third-party scorer. The second component of the result is the list of texts the scorer
  was called with, in call order.
\<close>

definition analyze_sentiment ::
  "(string \<Rightarrow> real) \<Rightarrow> string \<Rightarrow> sentiment_result \<times> string list" where
  "analyze_sentiment polarity_scores text =
     (if text = [] \<or> str_strip text = []
      then (\<lparr>res_sentiment = ''Neutral'', res_score = 0.0\<rparr>, [])
      else
        let compound_score = polarity_scores text;
            sentiment =
              (if compound_score \<ge> 0.05 then ''Positive''
               else if compound_score \<le> - 0.05 then ''Negative''
               else ''Neutral'')
        in (\<lparr>res_sentiment = sentiment, res_score = compound_score\<rparr>, [text]))"

section \<open>utils.py: the data model\<close>

text \<open>
  A \<open>datetime\<close> is a point of the naive local time line, counted in microseconds. The
  exceptions that the modelled code raises or catches are the values of \<open>error\<close>; the
  \<open>ValueError\<close> of a library function carries the name of that function.
\<close>

type_synonym datetime = int

datatype error =
    FileNotFoundError
  | JSONDecodeError
  | UnicodeDecodeError
  | RecursionError
  | KeyError string
  | ValueError string

text \<open>
  One journal entry, as \<open>add_entry\<close> builds it: the keys \<open>timestamp\<close>, \<open>text\<close>,
  \<open>sentiment\<close> and \<open>score\<close>.
\<close>

record entry =
  timestamp :: string
  entry_text :: string
  sentiment :: string
  score :: real

text \<open>
  The dictionary held in \<open>journal_log.json\<close>. A key can be absent (\<open>None\<close>): the source
  reads \<open>entries\<close> both with \<open>data["entries"]\<close> and with \<open>data.get("entries", [])\<close>, and
  it builds dictionaries with and without \<open>last_updated\<close>.
\<close>

record journal =
  entries :: "entry list option"
  created_at :: "string option"
  last_updated :: "string option"

text \<open>
  The backing file, by what \<open>open(self.data_file, 'r', encoding='utf-8')\<close> and
  \<open>json.load\<close> do with it: it is absent (\<open>FileNotFoundError\<close>); its text is not JSON
  (\<open>Corrupt\<close>, \<open>json.JSONDecodeError\<close>); its bytes are not valid UTF-8 (\<open>NotUtf8\<close>,
  \<open>UnicodeDecodeError\<close>); its JSON is nested more deeply than the parser's recursion limit
  (\<open>TooDeep\<close>, \<open>RecursionError\<close>); or it holds a journal dictionary.
\<close>

datatype backing = Missing | Corrupt | NotUtf8 | TooDeep | Stored journal

text \<open>
  The state that the data manager's methods act on: the backing file and the number of
  calls of \<open>datetime.now()\<close> made so far.
\<close>

record world =
  data_file :: backing
  ticks :: nat

text \<open>
  The library functions that the methods call: \<open>clock k\<close> is the value of the \<open>k\<close>-th
  call of \<open>datetime.now()\<close>; \<open>strftime\<close> and \<open>strptime\<close> are the two functions at the
  format \<open>%Y-%m-%d %H:%M\<close>, the second with \<open>None\<close> where it raises \<open>ValueError\<close>;
  \<open>to_datetime\<close>, \<open>sort_values\<close> and \<open>to_csv\<close> are the pandas functions used for the
  tabular export.
\<close>

record lib =
  clock :: "nat \<Rightarrow> datetime"
  isoformat :: "datetime \<Rightarrow> string"
  strftime :: "datetime \<Rightarrow> string"
  strptime :: "string \<Rightarrow> datetime option"
  to_datetime :: "string \<Rightarrow> datetime option"
  sort_values :: "(datetime \<times> entry) list \<Rightarrow> (datetime \<times> entry) list"
  to_csv :: "(datetime \<times> entry) list \<Rightarrow> string"

definition now :: "lib \<Rightarrow> world \<Rightarrow> datetime \<times> world" where
  "now L w = (clock L (ticks w), w\<lparr>ticks := Suc (ticks w)\<rparr>)"

text \<open>\<open>pd.Timedelta(days=days)\<close>, in microseconds.\<close>

definition timedelta_days :: "int \<Rightarrow> int" where
  "timedelta_days days = days * 86400000000"

section \<open>utils.py: DataManager\<close>

text \<open>\<open>open(self.data_file, 'r')\<close> followed by \<open>json.load(f)\<close>.\<close>

definition read_json :: "world \<Rightarrow> error + journal" where
  "read_json w =
     (case data_file w of
        Missing \<Rightarrow> Inl FileNotFoundError
      | Corrupt \<Rightarrow> Inl JSONDecodeError
      | NotUtf8 \<Rightarrow> Inl UnicodeDecodeError
      | TooDeep \<Rightarrow> Inl RecursionError
      | Stored data \<Rightarrow> Inr data)"

definition load_data :: "lib \<Rightarrow> world \<Rightarrow> (error + journal) \<times> world" where
  "load_data L w =
     (case read_json w of
        Inr data \<Rightarrow> (Inr data, w)
      | Inl e \<Rightarrow>
          if e = FileNotFoundError \<or> e = JSONDecodeError
          then (let (t, w1) = now L w
                in (Inr \<lparr>entries = Some [], created_at = Some (isoformat L t),
                         last_updated = None\<rparr>, w1))
          else (Inl e, w))"

definition save_data :: "lib \<Rightarrow> journal \<Rightarrow> world \<Rightarrow> world" where
  "save_data L data w =
     (let (t, w1) = now L w;
          data1 = data\<lparr>last_updated := Some (isoformat L t)\<rparr>
      in w1\<lparr>data_file := Stored data1\<rparr>)"

definition initialize_data_file :: "lib \<Rightarrow> world \<Rightarrow> world" where
  "initialize_data_file L w =
     (if data_file w = Missing
      then (let (t1, w1) = now L w;
                (t2, w2) = now L w1;
                initial_data = \<lparr>entries = Some [], created_at = Some (isoformat L t1),
                                last_updated = Some (isoformat L t2)\<rparr>
            in save_data L initial_data w2)
      else w)"

definition add_entry ::
  "lib \<Rightarrow> string \<Rightarrow> string \<Rightarrow> real \<Rightarrow> world \<Rightarrow> (error + entry) \<times> world" where
  "add_entry L text sentiment_arg score_arg w =
     (case load_data L w of
        (Inl e, w1) \<Rightarrow> (Inl e, w1)
      | (Inr data, w1) \<Rightarrow>
          let (t, w2) = now L w1;
              new_entry = \<lparr>timestamp = strftime L t, entry_text = text,
                           sentiment = sentiment_arg, score = score_arg\<rparr>
          in (case entries data of
                None \<Rightarrow> (Inl (KeyError ''entries''), w2)
              | Some es \<Rightarrow>
                  (Inr new_entry, save_data L (data\<lparr>entries := Some (es @ [new_entry])\<rparr>) w2)))"

definition get_all_entries :: "lib \<Rightarrow> world \<Rightarrow> (error + entry list) \<times> world" where
  "get_all_entries L w =
     (case load_data L w of
        (Inl e, w1) \<Rightarrow> (Inl e, w1)
      | (Inr data, w1) \<Rightarrow> (Inr (case entries data of None \<Rightarrow> [] | Some es \<Rightarrow> es), w1))"

text \<open>
  \<open>get_entries_as_dataframe\<close>: a data frame is the list of its rows, each row an entry
  with its timestamp converted by \<open>pd.to_datetime\<close>; the conversion of the column raises
  when one timestamp is rejected.
\<close>

fun convert_timestamps :: "lib \<Rightarrow> entry list \<Rightarrow> error + (datetime \<times> entry) list" where
  "convert_timestamps L [] = Inr []"
| "convert_timestamps L (e # es) =
     (case to_datetime L (timestamp e) of
        None \<Rightarrow> Inl (ValueError ''to_datetime'')
      | Some d \<Rightarrow>
          (case convert_timestamps L es of
             Inl err \<Rightarrow> Inl err
           | Inr rows \<Rightarrow> Inr ((d, e) # rows)))"

definition get_entries_as_dataframe ::
  "lib \<Rightarrow> world \<Rightarrow> (error + (datetime \<times> entry) list) \<times> world" where
  "get_entries_as_dataframe L w =
     (case get_all_entries L w of
        (Inl e, w1) \<Rightarrow> (Inl e, w1)
      | (Inr es, w1) \<Rightarrow>
          if es = [] then (Inr [], w1)
          else (case convert_timestamps L es of
                  Inl e \<Rightarrow> (Inl e, w1)
                | Inr df \<Rightarrow> (Inr (sort_values L df), w1)))"

text \<open>
  The builtins \<open>max\<close> and \<open>min\<close> with a key, on a sequence with first item \<open>b\<close>: the
  first item is the initial choice and a later item replaces it only when its key is
  strictly greater (strictly smaller).
\<close>

fun max_key :: "('a \<Rightarrow> real) \<Rightarrow> 'a \<Rightarrow> 'a list \<Rightarrow> 'a" where
  "max_key key b [] = b"
| "max_key key b (x # xs) = (if key x > key b then max_key key x xs else max_key key b xs)"

fun min_key :: "('a \<Rightarrow> real) \<Rightarrow> 'a \<Rightarrow> 'a list \<Rightarrow> 'a" where
  "min_key key b [] = b"
| "min_key key b (x # xs) = (if key x < key b then min_key key x xs else min_key key b xs)"

text \<open>
  The loop that counts the labels. The dictionary is an association list in insertion
  order; a new label goes to the end and a known one is updated in place.
\<close>

fun count_sentiments :: "(string \<times> nat) list \<Rightarrow> entry list \<Rightarrow> (string \<times> nat) list" where
  "count_sentiments sentiment_counts [] = sentiment_counts"
| "count_sentiments sentiment_counts (e # es) =
     count_sentiments
       (AList.update (sentiment e)
          ((case map_of sentiment_counts (sentiment e) of None \<Rightarrow> 0 | Some c \<Rightarrow> c) + 1)
          sentiment_counts)
       es"

record statistics =
  total_entries :: nat
  sentiment_distribution :: "(string \<times> nat) list"
  average_score :: real
  best_day :: "entry option"
  worst_day :: "entry option"

text \<open>
  \<open>get_statistics\<close>: the first branch is the early return for \<open>not entries\<close>; in the
  second the list is not empty, so the guards \<open>if scores\<close> and \<open>if entries\<close> of the
  source hold.
\<close>

definition get_statistics :: "lib \<Rightarrow> world \<Rightarrow> (error + statistics) \<times> world" where
  "get_statistics L w =
     (case get_all_entries L w of
        (Inl e, w1) \<Rightarrow> (Inl e, w1)
      | (Inr es, w1) \<Rightarrow>
          (case es of
             [] \<Rightarrow>
               (Inr \<lparr>total_entries = 0, sentiment_distribution = [], average_score = 0.0,
                     best_day = None, worst_day = None\<rparr>, w1)
           | x # xs \<Rightarrow>
               let sentiment_counts = count_sentiments [] es;
                   scores = map score es;
                   avg_score = sum_list scores / real (length scores);
                   best_entry = Some (max_key score x xs);
                   worst_entry = Some (min_key score x xs)
               in (Inr \<lparr>total_entries = length es, sentiment_distribution = sentiment_counts,
                        average_score = avg_score, best_day = best_entry,
                        worst_day = worst_entry\<rparr>, w1)))"

text \<open>What \<open>export_data\<close> returns: the loaded dictionary, or the text of the table.\<close>

datatype payload = JsonPayload journal | CsvPayload string

text \<open>The message of the \<open>ValueError\<close> that \<open>export_data\<close> raises; 39 is the quote character.\<close>

definition unsupported_format :: string where
  "unsupported_format =
     ''Unsupported format. Use '' @ [char_of (39 :: nat)] @ ''json'' @ [char_of (39 :: nat)] @
     '' or '' @ [char_of (39 :: nat)] @ ''csv'' @ [char_of (39 :: nat)]"

definition export_data :: "lib \<Rightarrow> string \<Rightarrow> world \<Rightarrow> (error + payload) \<times> world" where
  "export_data L format w =
     (if str_lower format = ''json''
      then (case load_data L w of
              (Inl e, w1) \<Rightarrow> (Inl e, w1)
            | (Inr data, w1) \<Rightarrow> (Inr (JsonPayload data), w1))
      else if str_lower format = ''csv''
      then (case get_entries_as_dataframe L w of
              (Inl e, w1) \<Rightarrow> (Inl e, w1)
            | (Inr df, w1) \<Rightarrow> (Inr (CsvPayload (to_csv L df)), w1))
      else (Inl (ValueError unsupported_format), w))"

definition clear_all_data :: "lib \<Rightarrow> world \<Rightarrow> world" where
  "clear_all_data L w =
     (let (t1, w1) = now L w;
          (t2, w2) = now L w1;
          initial_data = \<lparr>entries = Some [], created_at = Some (isoformat L t1),
                          last_updated = Some (isoformat L t2)\<rparr>
      in save_data L initial_data w2)"

text \<open>The loop of \<open>get_recent_entries\<close>, with the list \<open>recent_entries\<close> built so far.\<close>

fun recent_loop :: "lib \<Rightarrow> datetime \<Rightarrow> entry list \<Rightarrow> entry list \<Rightarrow> error + entry list" where
  "recent_loop L cutoff_date recent_entries [] = Inr recent_entries"
| "recent_loop L cutoff_date recent_entries (e # es) =
     (case strptime L (timestamp e) of
        None \<Rightarrow> Inl (ValueError ''strptime'')
      | Some entry_date \<Rightarrow>
          recent_loop L cutoff_date
            (if entry_date \<ge> cutoff_date then recent_entries @ [e] else recent_entries) es)"

definition get_recent_entries :: "lib \<Rightarrow> int \<Rightarrow> world \<Rightarrow> (error + entry list) \<times> world" where
  "get_recent_entries L days w =
     (case get_all_entries L w of
        (Inl e, w1) \<Rightarrow> (Inl e, w1)
      | (Inr es, w1) \<Rightarrow>
          if es = [] then (Inr [], w1)
          else (let (t, w2) = now L w1;
                    cutoff_date = t - timedelta_days days
                in (case recent_loop L cutoff_date [] es of
                      Inl e \<Rightarrow> (Inl e, w2)
                    | Inr recent_entries \<Rightarrow> (Inr recent_entries, w2))))"

section \<open>app.py: the Journal History page\<close>

definition days_map :: "(string \<times> int) list" where
  "days_map = [(''Last 7 days'', 7), (''Last 30 days'', 30), (''Last 90 days'', 90)]"

text \<open>
  The entries that the page shows for the two select boxes; \<open>None\<close> is the branch that
  shows the note that there are no entries yet. A key that \<open>days_map\<close> lacks raises
  \<open>KeyError\<close>.
\<close>

definition journal_history ::
  "lib \<Rightarrow> string \<Rightarrow> string \<Rightarrow> world \<Rightarrow> (error + entry list option) \<times> world" where
  "journal_history L sentiment_filter days_filter w =
     (case get_all_entries L w of
        (Inl e, w1) \<Rightarrow> (Inl e, w1)
      | (Inr es, w1) \<Rightarrow>
          if es = [] then (Inr None, w1)
          else
            let filtered_entries = es;
                filtered_entries =
                  (if sentiment_filter \<noteq> ''All''
                   then filter (\<lambda>e. sentiment e = sentiment_filter) filtered_entries
                   else filtered_entries)
            in if days_filter \<noteq> ''All time''
               then (case map_of days_map days_filter of
                       None \<Rightarrow> (Inl (KeyError days_filter), w1)
                     | Some days \<Rightarrow>
                         (case get_recent_entries L days w1 of
                            (Inl e, w2) \<Rightarrow> (Inl e, w2)
                          | (Inr recent_entries, w2) \<Rightarrow>
                              (Inr (Some (filter (\<lambda>e. e \<in> set recent_entries) filtered_entries)),
                               w2)))
               else (Inr (Some filtered_entries), w1))"

section \<open>The specification's filters\<close>

text \<open>
  Written from the words of the specification, not from the source. An entry qualifies
  for the recency filter when its timestamp, parsed with the write-time format, is at
  least \<open>now - days\<close>; the direct filter keeps the entries that have the selected label
  and qualify for the recency filter.
\<close>

definition spec_recent :: "(string \<Rightarrow> datetime option) \<Rightarrow> datetime \<Rightarrow> int \<Rightarrow> entry \<Rightarrow> bool" where
  "spec_recent parse now_t days e =
     (case parse (timestamp e) of
        None \<Rightarrow> False
      | Some t \<Rightarrow> t \<ge> now_t - timedelta_days days)"

definition spec_conjunctive_filter ::
  "(string \<Rightarrow> datetime option) \<Rightarrow> datetime \<Rightarrow> string \<Rightarrow> int \<Rightarrow> entry list \<Rightarrow> entry list" where
  "spec_conjunctive_filter parse now_t label days es =
     filter (\<lambda>e. sentiment e = label \<and> spec_recent parse now_t days e) es"

section \<open>Scenarios\<close>

text \<open>
  A sequence of calls of \<open>add_entry\<close>, one per triple of text, label and score, in order;
  it stops at the first call that raises. The result lists the entries that the calls
  returned.
\<close>

fun add_entry_calls ::
  "lib \<Rightarrow> (string \<times> string \<times> real) list \<Rightarrow> world \<Rightarrow> (error + entry list) \<times> world" where
  "add_entry_calls L [] w = (Inr [], w)"
| "add_entry_calls L ((text, label, sc) # rest) w =
     (case add_entry L text label sc w of
        (Inl e, w1) \<Rightarrow> (Inl e, w1)
      | (Inr new_entry, w1) \<Rightarrow>
          (case add_entry_calls L rest w1 of
             (Inl e, w2) \<Rightarrow> (Inl e, w2)
           | (Inr new_entries, w2) \<Rightarrow> (Inr (new_entry # new_entries), w2)))"

text \<open>
  The backing file is missing, is text that is not JSON, or is a dictionary that has the
  key \<open>entries\<close>: every file that the data manager itself has written is of the last
  kind.
\<close>

definition entries_key_present :: "world \<Rightarrow> bool" where
  "entries_key_present w =
     (case data_file w of
        Missing \<Rightarrow> True
      | Corrupt \<Rightarrow> True
      | NotUtf8 \<Rightarrow> False
      | TooDeep \<Rightarrow> False
      | Stored data \<Rightarrow> entries data \<noteq> None)"

section \<open>A sample environment\<close>

text \<open>
  One instance of the library functions, for evaluating the methods on concrete stores:
  the clock starts at 2024-01-15 10:00:00 and advances by a microsecond per reading, and
  the two parsers know the four timestamps used below.
\<close>

definition sample_timestamps :: "(string \<times> datetime) list" where
  "sample_timestamps =
     [(''2024-01-15 10:00'', 1705312800000000),
      (''2024-01-14 18:30'', 1705257000000000),
      (''2024-01-08 10:00'', 1704708000000000),
      (''2024-01-08 09:59'', 1704707940000000)]"

definition sample_lib :: lib where
  "sample_lib =
     \<lparr>clock = (\<lambda>k. 1705312800000000 + int k),
      isoformat = (\<lambda>t. ''2024-01-15T10:00:00''),
      strftime = (\<lambda>t. ''2024-01-15 10:00''),
      strptime = map_of sample_timestamps,
      to_datetime = map_of sample_timestamps,
      sort_values = (\<lambda>df. df),
      to_csv = (\<lambda>df. concat (map (\<lambda>(d, e). timestamp e @ '','' @ entry_text e) df))\<rparr>"

definition sample_entry :: "string \<Rightarrow> string \<Rightarrow> real \<Rightarrow> entry" where
  "sample_entry ts label sc =
     \<lparr>timestamp = ts, entry_text = ''note'', sentiment = label, score = sc\<rparr>"

definition sample_store :: "entry list \<Rightarrow> world" where
  "sample_store es =
     \<lparr>data_file = Stored \<lparr>entries = Some es, created_at = Some ''2024-01-01T09:00:00'',
                           last_updated = Some ''2024-01-15T09:00:00''\<rparr>,
      ticks = 0\<rparr>"

section \<open>Properties of the sentiment analyzer\<close>

lemma str_strip_empty_iff: "str_strip s = [] \<longleftrightarrow> (\<forall>c \<in> set s. isspace c)"
proof -
  have "str_strip s = [] \<longleftrightarrow> dropWhile isspace (rev (dropWhile isspace s)) = []"
    by (simp add: str_strip_def str_rstrip_def str_lstrip_def)
  also have "\<dots> \<longleftrightarrow> (\<forall>c \<in> set (dropWhile isspace s). isspace c)"
    by (simp add: dropWhile_eq_Nil_conv)
  also have "\<dots> \<longleftrightarrow> (\<forall>c \<in> set s. isspace c)"
  proof
    assume h: "\<forall>c \<in> set (dropWhile isspace s). isspace c"
    show "\<forall>c \<in> set s. isspace c"
    proof (cases "dropWhile isspace s")
      case Nil
      then show ?thesis by (simp add: dropWhile_eq_Nil_conv)
    next
      case (Cons a as)
      then have "\<not> isspace a" using hd_dropWhile [of isspace s] by simp
      moreover have "a \<in> set (dropWhile isspace s)" using Cons by simp
      ultimately show ?thesis using h by blast
    qed
  next
    assume "\<forall>c \<in> set s. isspace c"
    then show "\<forall>c \<in> set (dropWhile isspace s). isspace c"
      by (meson in_mono set_dropWhileD subsetI)
  qed
  finally show ?thesis .
qed

text \<open>
  C7: for every input string that is empty or consists only of whitespace,
  \<open>analyze_sentiment\<close> returns the label Neutral with score 0.0, and the list of scorer
  calls is empty: the underlying polarity scorer is not invoked.
\<close>

theorem analyze_sentiment_blank:
  assumes "\<forall>c \<in> set text. isspace c"
  shows "analyze_sentiment polarity_scores text =
           (\<lparr>res_sentiment = ''Neutral'', res_score = 0\<rparr>, [])"
proof -
  from assms have "str_strip text = []" by (simp add: str_strip_empty_iff)
  then show ?thesis by (simp add: analyze_sentiment_def)
qed

theorem analyze_sentiment_blank_witness:
  "list_all isspace ''   '' \<and>
   analyze_sentiment (\<lambda>t. 1) ''   '' = (\<lparr>res_sentiment = ''Neutral'', res_score = 0\<rparr>, []) \<and>
   analyze_sentiment (\<lambda>t. 1) '''' = (\<lparr>res_sentiment = ''Neutral'', res_score = 0\<rparr>, [])"
proof -
  have h: "\<forall>c \<in> set ''   ''. isspace c" by (simp add: isspace_def)
  have e: "\<forall>c \<in> set ''''. isspace c" by simp
  show ?thesis
    using h analyze_sentiment_blank [OF h, of "\<lambda>t. 1"] analyze_sentiment_blank [OF e, of "\<lambda>t. 1"]
    by (simp add: list_all_iff)
qed

text \<open>
  C1: for every text, the label that \<open>analyze_sentiment\<close> returns is Positive exactly
  when the returned score is at least 0.05, Negative exactly when it is at most -0.05, and
  Neutral exactly when it lies strictly between; the returned score is the scorer's
  compound score of the text unless the text is blank. The boundaries are exact: a
  compound score of 0.05 gives Positive and one of 0.0499999 gives Neutral.
\<close>

theorem analyze_sentiment_thresholds:
  fixes polarity_scores :: "string \<Rightarrow> real"
  defines "r \<equiv> \<lambda>text. fst (analyze_sentiment polarity_scores text)"
  shows "(res_sentiment (r text) = ''Positive'' \<longleftrightarrow> res_score (r text) \<ge> 0.05) \<and>
         (res_sentiment (r text) = ''Negative'' \<longleftrightarrow> res_score (r text) \<le> - 0.05) \<and>
         (res_sentiment (r text) = ''Neutral'' \<longleftrightarrow>
            - 0.05 < res_score (r text) \<and> res_score (r text) < 0.05) \<and>
         (\<not> list_all isspace text \<longrightarrow> res_score (r text) = polarity_scores text) \<and>
         (\<not> list_all isspace text \<longrightarrow> polarity_scores text = 0.05 \<longrightarrow>
            res_sentiment (r text) = ''Positive'') \<and>
         (\<not> list_all isspace text \<longrightarrow> polarity_scores text = 0.0499999 \<longrightarrow>
            res_sentiment (r text) = ''Neutral'')"
proof (cases "list_all isspace text")
  case True
  then have "str_strip text = []" by (simp add: str_strip_empty_iff list_all_iff)
  then show ?thesis using True by (simp add: r_def analyze_sentiment_def)
next
  case False
  then have ne: "text \<noteq> []" "str_strip text \<noteq> []"
    by (auto simp: str_strip_empty_iff list_all_iff)
  then show ?thesis using False by (simp add: r_def analyze_sentiment_def Let_def)
qed

theorem analyze_sentiment_thresholds_witness:
  "res_sentiment (fst (analyze_sentiment (\<lambda>t. 0.05) ''ok'')) = ''Positive'' \<and>
   res_sentiment (fst (analyze_sentiment (\<lambda>t. 0.0499999) ''ok'')) = ''Neutral'' \<and>
   res_sentiment (fst (analyze_sentiment (\<lambda>t. - 0.05) ''ok'')) = ''Negative'' \<and>
   res_score (fst (analyze_sentiment (\<lambda>t. - 0.05) ''ok'')) = - 0.05"
proof -
  have ns: "\<not> list_all isspace ''ok''" by (simp add: isspace_def)
  show ?thesis
    using ns
      analyze_sentiment_thresholds [of "\<lambda>t. 0.05" "''ok''"]
      analyze_sentiment_thresholds [of "\<lambda>t. 0.0499999" "''ok''"]
      analyze_sentiment_thresholds [of "\<lambda>t. - 0.05" "''ok''"]
    by simp
qed

section \<open>Loading and the read-only methods\<close>

lemma load_data_Stored:
  "data_file w = Stored data \<Longrightarrow> load_data L w = (Inr data, w)"
  by (simp add: load_data_def read_json_def)

lemma load_data_fallback:
  "data_file w = Missing \<or> data_file w = Corrupt \<Longrightarrow>
   load_data L w =
     (Inr \<lparr>entries = Some [], created_at = Some (isoformat L (clock L (ticks w))),
           last_updated = None\<rparr>,
      w\<lparr>ticks := Suc (ticks w)\<rparr>)"
  by (auto simp: load_data_def read_json_def now_def)

lemma load_data_NotUtf8:
  "data_file w = NotUtf8 \<Longrightarrow> load_data L w = (Inl UnicodeDecodeError, w)"
  by (simp add: load_data_def read_json_def)

lemma load_data_TooDeep:
  "data_file w = TooDeep \<Longrightarrow> load_data L w = (Inl RecursionError, w)"
  by (simp add: load_data_def read_json_def)

lemma load_data_error:
  "fst (load_data L w) = Inl e \<Longrightarrow> e = UnicodeDecodeError \<or> e = RecursionError"
  by (cases "data_file w")
     (auto simp: load_data_Stored load_data_fallback load_data_NotUtf8 load_data_TooDeep)

lemma load_data_file: "data_file (snd (load_data L w)) = data_file w"
  by (cases "data_file w")
     (simp_all add: load_data_Stored load_data_fallback load_data_NotUtf8 load_data_TooDeep)

lemma get_all_entries_file: "data_file (snd (get_all_entries L w)) = data_file w"
proof -
  obtain r w1 where l: "load_data L w = (r, w1)" by (cases "load_data L w")
  with load_data_file [of L w] have "data_file w1 = data_file w" by simp
  with l show ?thesis by (cases r) (simp_all add: get_all_entries_def)
qed

lemma get_all_entries_Stored:
  "data_file w = Stored data \<Longrightarrow>
   get_all_entries L w = (Inr (case entries data of None \<Rightarrow> [] | Some es \<Rightarrow> es), w)"
  by (simp add: get_all_entries_def load_data_Stored)

lemma get_all_entries_fallback:
  "data_file w = Missing \<or> data_file w = Corrupt \<Longrightarrow>
   get_all_entries L w = (Inr [], w\<lparr>ticks := Suc (ticks w)\<rparr>)"
  by (simp add: get_all_entries_def load_data_fallback)

lemma get_all_entries_NotUtf8:
  "data_file w = NotUtf8 \<Longrightarrow> get_all_entries L w = (Inl UnicodeDecodeError, w)"
  by (simp add: get_all_entries_def load_data_NotUtf8)

lemma get_all_entries_TooDeep:
  "data_file w = TooDeep \<Longrightarrow> get_all_entries L w = (Inl RecursionError, w)"
  by (simp add: get_all_entries_def load_data_TooDeep)

lemma get_all_entries_error:
  "fst (get_all_entries L w) = Inl e \<Longrightarrow> e = UnicodeDecodeError \<or> e = RecursionError"
  by (cases "data_file w")
     (auto simp: get_all_entries_Stored get_all_entries_fallback get_all_entries_NotUtf8
        get_all_entries_TooDeep)

lemma get_statistics_file: "data_file (snd (get_statistics L w)) = data_file w"
proof -
  obtain r w1 where g: "get_all_entries L w = (r, w1)" by (cases "get_all_entries L w")
  with get_all_entries_file [of L w] have "data_file w1 = data_file w" by simp
  with g show ?thesis
    by (cases r) (simp_all add: get_statistics_def Let_def split: list.split)
qed

lemma get_entries_as_dataframe_file:
  "data_file (snd (get_entries_as_dataframe L w)) = data_file w"
proof -
  obtain r w1 where g: "get_all_entries L w = (r, w1)" by (cases "get_all_entries L w")
  with get_all_entries_file [of L w] have "data_file w1 = data_file w" by simp
  with g show ?thesis
    by (cases r) (simp_all add: get_entries_as_dataframe_def split: sum.split)
qed

lemma export_data_file: "data_file (snd (export_data L format w)) = data_file w"
proof -
  obtain r w1 where l: "load_data L w = (r, w1)" by (cases "load_data L w")
  with load_data_file [of L w] have f1: "data_file w1 = data_file w" by simp
  obtain q w2 where d: "get_entries_as_dataframe L w = (q, w2)"
    by (cases "get_entries_as_dataframe L w")
  with get_entries_as_dataframe_file [of L w] have f2: "data_file w2 = data_file w" by simp
  show ?thesis
    using l d f1 f2 by (cases r; cases q) (simp_all add: export_data_def)
qed

lemma get_recent_entries_file: "data_file (snd (get_recent_entries L days w)) = data_file w"
proof -
  obtain r w1 where g: "get_all_entries L w = (r, w1)" by (cases "get_all_entries L w")
  with get_all_entries_file [of L w] have "data_file w1 = data_file w" by simp
  with g show ?thesis
    by (cases r) (simp_all add: get_recent_entries_def now_def split: sum.split)
qed

text \<open>
  The two errors that \<open>load_data\<close> catches: when the backing file is missing or its text
  is not JSON, loading gives the empty journal and \<open>get_all_entries\<close> returns the empty
  sequence as a normal result.
\<close>

lemma missing_or_corrupt_is_empty_journal:
  assumes "data_file w = Missing \<or> data_file w = Corrupt"
  shows "fst (get_all_entries L w) = Inr [] \<and>
         (\<exists>data. fst (load_data L w) = Inr data \<and> entries data = Some [])"
  using assms by (simp add: get_all_entries_fallback load_data_fallback)

lemma missing_or_corrupt_is_empty_journal_example:
  "fst (get_all_entries sample_lib \<lparr>data_file = Missing, ticks = 0\<rparr>) = Inr [] \<and>
   fst (get_all_entries sample_lib \<lparr>data_file = Corrupt, ticks = 0\<rparr>) = Inr []"
  using
    missing_or_corrupt_is_empty_journal [of "\<lparr>data_file = Missing, ticks = 0\<rparr>" sample_lib]
    missing_or_corrupt_is_empty_journal [of "\<lparr>data_file = Corrupt, ticks = 0\<rparr>" sample_lib]
  by simp

text \<open>
  C6: the claim asks that every missing or unparseable backing record loads as the empty
  journal, with no error reaching the caller. A file whose bytes are not valid UTF-8, and
  one whose JSON is nested too deeply, cannot be parsed either, but the errors they raise
  are not among the two that \<open>load_data\<close> catches: \<open>load_data\<close> and \<open>get_all_entries\<close>
  raise them to the caller.
\<close>

theorem unparseable_file_error_reaches_caller:
  "load_data L \<lparr>data_file = NotUtf8, ticks = 0\<rparr> =
     (Inl UnicodeDecodeError, \<lparr>data_file = NotUtf8, ticks = 0\<rparr>) \<and>
   get_all_entries L \<lparr>data_file = NotUtf8, ticks = 0\<rparr> =
     (Inl UnicodeDecodeError, \<lparr>data_file = NotUtf8, ticks = 0\<rparr>) \<and>
   get_all_entries L \<lparr>data_file = TooDeep, ticks = 0\<rparr> =
     (Inl RecursionError, \<lparr>data_file = TooDeep, ticks = 0\<rparr>)"
  by (simp add: get_all_entries_def load_data_def read_json_def)

text \<open>
  C10: the read-only methods \<open>get_all_entries\<close>, \<open>get_statistics\<close>, \<open>export_data\<close> and
  \<open>get_recent_entries\<close> leave the backing file as it was, whatever they return: its
  entries, \<open>created_at\<close> and \<open>last_updated\<close> are the same before and after the call.
\<close>

theorem read_only_methods_keep_file:
  "data_file (snd (get_all_entries L w)) = data_file w \<and>
   data_file (snd (get_statistics L w)) = data_file w \<and>
   data_file (snd (export_data L format w)) = data_file w \<and>
   data_file (snd (get_recent_entries L days w)) = data_file w"
  by (simp add: get_all_entries_file get_statistics_file export_data_file
      get_recent_entries_file)

text \<open>
  C2: the claim asks that the structured export holds the three keys \<open>entries\<close>,
  \<open>created_at\<close> and \<open>last_updated\<close> for every state of the store. With a missing or an
  unparseable backing file the export is the fallback dictionary of \<open>load_data\<close>, which
  has no \<open>last_updated\<close>.
\<close>

theorem export_json_fallback_lacks_last_updated:
  "fst (export_data L ''json'' \<lparr>data_file = Corrupt, ticks = 0\<rparr>) =
     Inr (JsonPayload \<lparr>entries = Some [], created_at = Some (isoformat L (clock L 0)),
                       last_updated = None\<rparr>) \<and>
   fst (export_data L ''json'' \<lparr>data_file = Missing, ticks = 0\<rparr>) =
     Inr (JsonPayload \<lparr>entries = Some [], created_at = Some (isoformat L (clock L 0)),
                       last_updated = None\<rparr>)"
  by (simp add: export_data_def str_lower_def lower_char_def load_data_fallback)

section \<open>The export formats\<close>

lemma get_entries_as_dataframe_Inr:
  assumes "fst (get_all_entries L w) = Inr es"
    and "\<forall>e \<in> set es. to_datetime L (timestamp e) \<noteq> None"
  shows "\<exists>df. fst (get_entries_as_dataframe L w) = Inr df"
proof -
  have conv: "\<forall>e \<in> set xs. to_datetime L (timestamp e) \<noteq> None \<Longrightarrow>
              \<exists>rows. convert_timestamps L xs = Inr rows" for xs
    by (induction xs) auto
  obtain w1 where g: "get_all_entries L w = (Inr es, w1)"
    using assms(1) by (cases "get_all_entries L w") simp
  from conv [OF assms(2)] obtain rows where "convert_timestamps L es = Inr rows" ..
  with g show ?thesis by (simp add: get_entries_as_dataframe_def)
qed

text \<open>
  C9: \<open>export_data\<close> compares the lower-cased format argument with \<open>json\<close> and \<open>csv\<close>.
  Every other argument raises the \<open>ValueError\<close> for an unsupported format and nothing
  is exported. Neither supported format ever raises the unsupported-format error. The
  structured format returns the loaded dictionary whenever loading succeeds, and the
  tabular format returns a payload whenever the entries can be listed and
  \<open>pd.to_datetime\<close> accepts the stored timestamps.
\<close>

theorem export_data_format:
  shows "(str_lower format \<noteq> ''json'' \<and> str_lower format \<noteq> ''csv'' \<longrightarrow>
            export_data L format w = (Inl (ValueError unsupported_format), w)) \<and>
         (str_lower format = ''json'' \<longrightarrow>
            fst (export_data L format w) \<noteq> Inl (ValueError unsupported_format)) \<and>
         (str_lower format = ''csv'' \<longrightarrow>
            fst (export_data L format w) \<noteq> Inl (ValueError unsupported_format)) \<and>
         (str_lower format = ''json'' \<longrightarrow> fst (load_data L w) = Inr data \<longrightarrow>
            fst (export_data L format w) = Inr (JsonPayload data)) \<and>
         (str_lower format = ''csv'' \<longrightarrow> fst (get_all_entries L w) = Inr es \<longrightarrow>
            (\<forall>e \<in> set es. to_datetime L (timestamp e) \<noteq> None) \<longrightarrow>
            (\<exists>p. fst (export_data L format w) = Inr p))"
proof (intro conjI impI)
  assume "str_lower format \<noteq> ''json'' \<and> str_lower format \<noteq> ''csv''"
  then show "export_data L format w = (Inl (ValueError unsupported_format), w)"
    by (simp add: export_data_def)
next
  assume j: "str_lower format = ''json''"
  obtain r w1 where l: "load_data L w = (r, w1)" by (cases "load_data L w")
  show "fst (export_data L format w) \<noteq> Inl (ValueError unsupported_format)"
  proof (cases r)
    case (Inl e)
    with l load_data_error [of L w e] have "e = UnicodeDecodeError \<or> e = RecursionError"
      by simp
    with j l Inl show ?thesis by (auto simp: export_data_def)
  next
    case (Inr data0)
    with j l show ?thesis by (simp add: export_data_def)
  qed
next
  assume c: "str_lower format = ''csv''"
  have conv: "convert_timestamps L xs \<noteq> Inl (ValueError unsupported_format)" for xs
    by (induction xs) (auto simp: unsupported_format_def split: option.split sum.split)
  obtain r w1 where g: "get_all_entries L w = (r, w1)" by (cases "get_all_entries L w")
  have "fst (get_entries_as_dataframe L w) \<noteq> Inl (ValueError unsupported_format)"
  proof (cases r)
    case (Inl e)
    with g get_all_entries_error [of L w e]
    have "e = UnicodeDecodeError \<or> e = RecursionError" by simp
    with g Inl show ?thesis by (auto simp: get_entries_as_dataframe_def)
  next
    case (Inr es0)
    with g conv [of es0] show ?thesis
      by (auto simp: get_entries_as_dataframe_def split: sum.split)
  qed
  then show "fst (export_data L format w) \<noteq> Inl (ValueError unsupported_format)"
    using c
    by (cases "get_entries_as_dataframe L w")
       (auto simp: export_data_def split: sum.split)
next
  assume j: "str_lower format = ''json''" and d: "fst (load_data L w) = Inr data"
  from d obtain w1 where "load_data L w = (Inr data, w1)" by (cases "load_data L w") simp
  with j show "fst (export_data L format w) = Inr (JsonPayload data)"
    by (simp add: export_data_def)
next
  assume c: "str_lower format = ''csv''"
    and g: "fst (get_all_entries L w) = Inr es"
    and t: "\<forall>e \<in> set es. to_datetime L (timestamp e) \<noteq> None"
  from get_entries_as_dataframe_Inr [OF g t] obtain df w1
    where "get_entries_as_dataframe L w = (Inr df, w1)"
    by (cases "get_entries_as_dataframe L w") auto
  with c show "\<exists>p. fst (export_data L format w) = Inr p" by (simp add: export_data_def)
qed

theorem export_data_format_witness:
  "export_data sample_lib ''xml'' (sample_store [sample_entry ''2024-01-14 18:30'' ''Positive'' 0.5]) =
     (Inl (ValueError unsupported_format),
      sample_store [sample_entry ''2024-01-14 18:30'' ''Positive'' 0.5]) \<and>
   fst (export_data sample_lib ''JSON''
          (sample_store [sample_entry ''2024-01-14 18:30'' ''Positive'' 0.5])) =
     Inr (JsonPayload
            \<lparr>entries = Some [sample_entry ''2024-01-14 18:30'' ''Positive'' 0.5],
             created_at = Some ''2024-01-01T09:00:00'',
             last_updated = Some ''2024-01-15T09:00:00''\<rparr>) \<and>
   (\<exists>p. fst (export_data sample_lib ''csv''
              (sample_store [sample_entry ''2024-01-14 18:30'' ''Positive'' 0.5])) = Inr p)"
proof -
  let ?w = "sample_store [sample_entry ''2024-01-14 18:30'' ''Positive'' 0.5]"
  let ?es = "[sample_entry ''2024-01-14 18:30'' ''Positive'' 0.5]"
  let ?data = "\<lparr>entries = Some ?es, created_at = Some ''2024-01-01T09:00:00'',
                last_updated = Some ''2024-01-15T09:00:00''\<rparr>"
  have x: "str_lower ''xml'' \<noteq> ''json'' \<and> str_lower ''xml'' \<noteq> ''csv''"
    by code_simp
  have j: "str_lower ''JSON'' = ''json''" by code_simp
  have c: "str_lower ''csv'' = ''csv''" by code_simp
  have d: "fst (load_data sample_lib ?w) = Inr ?data"
    by (simp add: load_data_Stored sample_store_def)
  have g: "fst (get_all_entries sample_lib ?w) = Inr ?es"
    by (simp add: get_all_entries_Stored sample_store_def)
  have t: "\<forall>e \<in> set ?es. to_datetime sample_lib (timestamp e) \<noteq> None"
    by (simp add: sample_lib_def sample_entry_def sample_timestamps_def)
  show ?thesis
    using x j c d g t
      export_data_format [where format = "''xml''" and L = sample_lib and w = ?w
        and es = ?es and data = ?data]
      export_data_format [where format = "''JSON''" and L = sample_lib and w = ?w
        and es = ?es and data = ?data]
      export_data_format [where format = "''csv''" and L = sample_lib and w = ?w
        and es = ?es and data = ?data]
    by blast
qed

section \<open>Best and worst day\<close>

text \<open>
  The loop invariant of \<open>max\<close>: the items seen before the current choice have strictly
  smaller keys, and those seen after it have keys that are not greater.
\<close>

lemma max_key_split:
  assumes "\<forall>y \<in> set pre0. key y < key b" and "\<forall>y \<in> set mid. key y \<le> key b"
  shows "\<exists>pre post. pre0 @ b # mid @ xs = pre @ max_key key b xs # post \<and>
           (\<forall>y \<in> set pre. key y < key (max_key key b xs)) \<and>
           (\<forall>y \<in> set post. key y \<le> key (max_key key b xs))"
  using assms
proof (induction xs arbitrary: b pre0 mid)
  case Nil
  then show ?case by auto
next
  case (Cons x xs)
  show ?case
  proof (cases "key x > key b")
    case True
    have p: "\<forall>y \<in> set (pre0 @ b # mid). key y < key x"
      using Cons.prems True by fastforce
    have m: "\<forall>y \<in> set ([] :: 'a list). key y \<le> key x" by simp
    from Cons.IH [OF p m] True show ?thesis by simp
  next
    case False
    have m: "\<forall>y \<in> set (mid @ [x]). key y \<le> key b"
      using Cons.prems(2) False by auto
    from Cons.IH [OF Cons.prems(1) m] False show ?thesis by simp
  qed
qed

lemma min_key_split:
  assumes "\<forall>y \<in> set pre0. key y > key b" and "\<forall>y \<in> set mid. key y \<ge> key b"
  shows "\<exists>pre post. pre0 @ b # mid @ xs = pre @ min_key key b xs # post \<and>
           (\<forall>y \<in> set pre. key y > key (min_key key b xs)) \<and>
           (\<forall>y \<in> set post. key y \<ge> key (min_key key b xs))"
  using assms
proof (induction xs arbitrary: b pre0 mid)
  case Nil
  then show ?case by auto
next
  case (Cons x xs)
  show ?case
  proof (cases "key x < key b")
    case True
    have p: "\<forall>y \<in> set (pre0 @ b # mid). key y > key x"
      using Cons.prems True by fastforce
    have m: "\<forall>y \<in> set ([] :: 'a list). key y \<ge> key x" by simp
    from Cons.IH [OF p m] True show ?thesis by simp
  next
    case False
    have m: "\<forall>y \<in> set (mid @ [x]). key y \<ge> key b"
      using Cons.prems(2) False by auto
    from Cons.IH [OF Cons.prems(1) m] False show ?thesis by simp
  qed
qed

lemma max_key_first:
  "\<exists>pre post. x # xs = pre @ max_key key x xs # post \<and>
     (\<forall>y \<in> set pre. key y < key (max_key key x xs)) \<and>
     (\<forall>y \<in> set post. key y \<le> key (max_key key x xs))"
  using max_key_split [of "[]" key x "[]" xs] by simp

lemma min_key_first:
  "\<exists>pre post. x # xs = pre @ min_key key x xs # post \<and>
     (\<forall>y \<in> set pre. key y > key (min_key key x xs)) \<and>
     (\<forall>y \<in> set post. key y \<ge> key (min_key key x xs))"
  using min_key_split [of "[]" key x "[]" xs] by simp

lemma max_key_all_equal: "\<forall>y \<in> set xs. key y = key b \<Longrightarrow> max_key key b xs = b"
  by (induction xs) auto

lemma min_key_all_equal: "\<forall>y \<in> set xs. key y = key b \<Longrightarrow> min_key key b xs = b"
  by (induction xs) auto

lemma get_statistics_Cons:
  assumes "get_all_entries L w = (Inr (x # xs), w1)"
  shows "\<exists>st. fst (get_statistics L w) = Inr st \<and>
           best_day st = Some (max_key score x xs) \<and>
           worst_day st = Some (min_key score x xs)"
  using assms by (simp add: get_statistics_def Let_def)

lemma get_statistics_Nil:
  assumes "get_all_entries L w = (Inr [], w1)"
  shows "\<exists>st. fst (get_statistics L w) = Inr st \<and> best_day st = None \<and> worst_day st = None"
  using assms by (simp add: get_statistics_def)

text \<open>
  C5: with \<open>es\<close> the entries of the store, \<open>get_statistics\<close> returns statistics in which,
  for a non-empty \<open>es\<close>, \<open>best_day\<close> is the first entry that attains the maximum score
  (every entry before it has a strictly smaller score, every entry after it a score that
  is not greater) and \<open>worst_day\<close> is the first entry that attains the minimum score; so
  no entry scores above \<open>best_day\<close> or below \<open>worst_day\<close>. When all scores are equal both
  fields are the first entry. For the empty list both fields are \<open>None\<close>.
\<close>

theorem get_statistics_best_worst:
  assumes "fst (get_all_entries L w) = Inr es"
  shows "\<exists>st. fst (get_statistics L w) = Inr st \<and>
     (es = [] \<longrightarrow> best_day st = None \<and> worst_day st = None) \<and>
     (es \<noteq> [] \<longrightarrow>
        (\<exists>pre b post. best_day st = Some b \<and> es = pre @ b # post \<and>
           (\<forall>y \<in> set pre. score y < score b) \<and> (\<forall>y \<in> set post. score y \<le> score b) \<and>
           (\<forall>y \<in> set es. score y \<le> score b)) \<and>
        (\<exists>pre c post. worst_day st = Some c \<and> es = pre @ c # post \<and>
           (\<forall>y \<in> set pre. score y > score c) \<and> (\<forall>y \<in> set post. score y \<ge> score c) \<and>
           (\<forall>y \<in> set es. score y \<ge> score c)) \<and>
        ((\<forall>y \<in> set es. score y = score (hd es)) \<longrightarrow>
           best_day st = Some (hd es) \<and> worst_day st = Some (hd es)))"
proof -
  obtain w1 where g: "get_all_entries L w = (Inr es, w1)"
    using assms by (cases "get_all_entries L w") simp
  show ?thesis
  proof (cases es)
    case Nil
    with g get_statistics_Nil [of L w w1] show ?thesis by auto
  next
    case (Cons x xs)
    with g get_statistics_Cons [of L w x xs w1] obtain st
      where st: "fst (get_statistics L w) = Inr st"
        and b: "best_day st = Some (max_key score x xs)"
        and c: "worst_day st = Some (min_key score x xs)"
      by auto
    obtain pre post where mx: "x # xs = pre @ max_key score x xs # post"
        "\<forall>y \<in> set pre. score y < score (max_key score x xs)"
        "\<forall>y \<in> set post. score y \<le> score (max_key score x xs)"
      using max_key_first [of x xs score] by blast
    obtain pre' post' where mn: "x # xs = pre' @ min_key score x xs # post'"
        "\<forall>y \<in> set pre'. score y > score (min_key score x xs)"
        "\<forall>y \<in> set post'. score y \<ge> score (min_key score x xs)"
      using min_key_first [of x xs score] by blast
    have allmx: "\<forall>y \<in> set es. score y \<le> score (max_key score x xs)"
    proof
      fix y assume "y \<in> set es"
      then have "y \<in> set pre \<or> y = max_key score x xs \<or> y \<in> set post"
        using Cons mx(1) by (metis Un_iff set_ConsD set_append)
      then show "score y \<le> score (max_key score x xs)"
        using mx(2,3) by fastforce
    qed
    have allmn: "\<forall>y \<in> set es. score y \<ge> score (min_key score x xs)"
    proof
      fix y assume "y \<in> set es"
      then have "y \<in> set pre' \<or> y = min_key score x xs \<or> y \<in> set post'"
        using Cons mn(1) by (metis Un_iff set_ConsD set_append)
      then show "score y \<ge> score (min_key score x xs)"
        using mn(2,3) by fastforce
    qed
    have best: "\<exists>pre b post. best_day st = Some b \<and> es = pre @ b # post \<and>
           (\<forall>y \<in> set pre. score y < score b) \<and> (\<forall>y \<in> set post. score y \<le> score b) \<and>
           (\<forall>y \<in> set es. score y \<le> score b)"
      using b mx allmx Cons by blast
    have worst: "\<exists>pre c post. worst_day st = Some c \<and> es = pre @ c # post \<and>
           (\<forall>y \<in> set pre. score y > score c) \<and> (\<forall>y \<in> set post. score y \<ge> score c) \<and>
           (\<forall>y \<in> set es. score y \<ge> score c)"
      using c mn allmn Cons by blast
    have same: "(\<forall>y \<in> set es. score y = score (hd es)) \<longrightarrow>
           best_day st = Some (hd es) \<and> worst_day st = Some (hd es)"
      using b c Cons by (simp add: max_key_all_equal min_key_all_equal)
    from st best worst same Cons show ?thesis by blast
  qed
qed

theorem get_statistics_best_worst_witness:
  "\<exists>st. fst (get_statistics sample_lib
            (sample_store [sample_entry ''2024-01-08 09:59'' ''Positive'' 0.5,
                           sample_entry ''2024-01-08 10:00'' ''Positive'' 0.8,
                           sample_entry ''2024-01-14 18:30'' ''Positive'' 0.8,
                           sample_entry ''2024-01-15 10:00'' ''Negative'' (- 0.2)])) = Inr st \<and>
        best_day st = Some (sample_entry ''2024-01-08 10:00'' ''Positive'' 0.8) \<and>
        worst_day st = Some (sample_entry ''2024-01-15 10:00'' ''Negative'' (- 0.2))"
proof -
  let ?es = "[sample_entry ''2024-01-08 09:59'' ''Positive'' 0.5,
              sample_entry ''2024-01-08 10:00'' ''Positive'' 0.8,
              sample_entry ''2024-01-14 18:30'' ''Positive'' 0.8,
              sample_entry ''2024-01-15 10:00'' ''Negative'' (- 0.2)]"
  have g: "fst (get_all_entries sample_lib (sample_store ?es)) = Inr ?es"
    by (simp add: get_all_entries_Stored sample_store_def)
  from get_statistics_best_worst [OF g] obtain st
    where st: "fst (get_statistics sample_lib (sample_store ?es)) = Inr st" by blast
  have v: "get_statistics sample_lib (sample_store ?es) =
             (Inr st', w') \<Longrightarrow>
           best_day st' = Some (sample_entry ''2024-01-08 10:00'' ''Positive'' 0.8) \<and>
           worst_day st' = Some (sample_entry ''2024-01-15 10:00'' ''Negative'' (- 0.2))"
    for st' w'
    by (auto simp: get_statistics_def get_all_entries_Stored sample_store_def
        sample_entry_def Let_def)
  from st v [of st "snd (get_statistics sample_lib (sample_store ?es))"]
  show ?thesis by (metis prod.collapse)
qed

section \<open>The recency filter\<close>

lemma recent_loop_filter:
  assumes "\<forall>e \<in> set es. strptime L (timestamp e) \<noteq> None"
  shows "recent_loop L (t - timedelta_days days) acc es =
           Inr (acc @ filter (spec_recent (strptime L) t days) es)"
  using assms
proof (induction es arbitrary: acc)
  case Nil
  then show ?case by simp
next
  case (Cons e es)
  then obtain d where d: "strptime L (timestamp e) = Some d" by auto
  from Cons.prems have rest: "\<forall>e \<in> set es. strptime L (timestamp e) \<noteq> None" by simp
  show ?case
    using d Cons.IH [OF rest] by (simp add: spec_recent_def)
qed

lemma recent_loop_unparsed:
  assumes "\<exists>e \<in> set es. strptime L (timestamp e) = None"
  shows "recent_loop L cutoff acc es = Inl (ValueError ''strptime'')"
  using assms
  by (induction es arbitrary: acc) (auto split: option.split)

lemma get_all_entries_nonempty:
  assumes "fst (get_all_entries L w) = Inr es" and "es \<noteq> []"
  shows "get_all_entries L w = (Inr es, w)"
proof (cases "data_file w")
  case (Stored data)
  with assms(1) show ?thesis by (simp add: get_all_entries_Stored)
qed (use assms in \<open>simp_all add: get_all_entries_fallback get_all_entries_NotUtf8
    get_all_entries_TooDeep\<close>)

lemma get_recent_entries_parsed:
  assumes "fst (get_all_entries L w) = Inr es"
    and "\<forall>e \<in> set es. strptime L (timestamp e) \<noteq> None"
  shows "fst (get_recent_entries L days w) =
           Inr (filter (spec_recent (strptime L) (clock L (ticks w)) days) es)"
proof (cases "es = []")
  case True
  obtain w1 where "get_all_entries L w = (Inr es, w1)"
    using assms(1) by (cases "get_all_entries L w") simp
  with True show ?thesis by (simp add: get_recent_entries_def)
next
  case False
  from get_all_entries_nonempty [OF assms(1) False]
  have g: "get_all_entries L w = (Inr es, w)" .
  from recent_loop_filter [OF assms(2), of "clock L (ticks w)" days "[]"]
  have "recent_loop L (clock L (ticks w) - timedelta_days days) [] es =
          Inr (filter (spec_recent (strptime L) (clock L (ticks w)) days) es)"
    by simp
  with g False show ?thesis by (simp add: get_recent_entries_def now_def)
qed

text \<open>
  C4: with \<open>es\<close> the entries of the store, each with a timestamp that \<open>strptime\<close> parses
  at the write-time format, and \<open>clock L (ticks w)\<close> the value that \<open>datetime.now()\<close>
  returns in the call, \<open>get_recent_entries\<close> returns exactly the entries, in their order,
  whose parsed timestamp is at least \<open>now - days\<close>: an entry whose timestamp is exactly
  \<open>now - days\<close> is included, and every entry with an earlier timestamp is excluded.
\<close>

theorem get_recent_entries_window:
  assumes "fst (get_all_entries L w) = Inr es"
    and "\<forall>e \<in> set es. strptime L (timestamp e) \<noteq> None"
  shows "\<exists>recent. fst (get_recent_entries L days w) = Inr recent \<and>
           recent = filter (spec_recent (strptime L) (clock L (ticks w)) days) es \<and>
           (\<forall>e \<in> set es. \<forall>d. strptime L (timestamp e) = Some d \<longrightarrow>
              (e \<in> set recent \<longleftrightarrow> d \<ge> clock L (ticks w) - timedelta_days days)) \<and>
           (\<forall>e \<in> set es.
              strptime L (timestamp e) = Some (clock L (ticks w) - timedelta_days days) \<longrightarrow>
              e \<in> set recent) \<and>
           (\<forall>e \<in> set es. \<forall>d. strptime L (timestamp e) = Some d \<longrightarrow>
              d < clock L (ticks w) - timedelta_days days \<longrightarrow> e \<notin> set recent)"
proof -
  let ?recent = "filter (spec_recent (strptime L) (clock L (ticks w)) days) es"
  have r: "fst (get_recent_entries L days w) = Inr ?recent"
    using get_recent_entries_parsed [OF assms] .
  have m: "\<forall>e \<in> set es. \<forall>d. strptime L (timestamp e) = Some d \<longrightarrow>
              (e \<in> set ?recent \<longleftrightarrow> d \<ge> clock L (ticks w) - timedelta_days days)"
    by (simp add: spec_recent_def)
  have b: "\<forall>e \<in> set es.
              strptime L (timestamp e) = Some (clock L (ticks w) - timedelta_days days) \<longrightarrow>
              e \<in> set ?recent"
    by (simp add: spec_recent_def)
  have o: "\<forall>e \<in> set es. \<forall>d. strptime L (timestamp e) = Some d \<longrightarrow>
              d < clock L (ticks w) - timedelta_days days \<longrightarrow> e \<notin> set ?recent"
    by (simp add: spec_recent_def)
  from r m b o show ?thesis by blast
qed

theorem get_recent_entries_window_witness:
  "fst (get_recent_entries sample_lib 7
          (sample_store [sample_entry ''2024-01-08 09:59'' ''Positive'' 0.5,
                         sample_entry ''2024-01-08 10:00'' ''Neutral'' 0,
                         sample_entry ''2024-01-14 18:30'' ''Negative'' (- 0.4)])) =
     Inr [sample_entry ''2024-01-08 10:00'' ''Neutral'' 0,
          sample_entry ''2024-01-14 18:30'' ''Negative'' (- 0.4)]"
proof -
  let ?es = "[sample_entry ''2024-01-08 09:59'' ''Positive'' 0.5,
              sample_entry ''2024-01-08 10:00'' ''Neutral'' 0,
              sample_entry ''2024-01-14 18:30'' ''Negative'' (- 0.4)]"
  have g: "fst (get_all_entries sample_lib (sample_store ?es)) = Inr ?es"
    by (simp add: get_all_entries_Stored sample_store_def)
  have p: "\<forall>e \<in> set ?es. strptime sample_lib (timestamp e) \<noteq> None"
    by (simp add: sample_lib_def sample_entry_def sample_timestamps_def)
  have f: "filter (spec_recent (strptime sample_lib)
                     (clock sample_lib (ticks (sample_store ?es))) 7) ?es =
           [sample_entry ''2024-01-08 10:00'' ''Neutral'' 0,
            sample_entry ''2024-01-14 18:30'' ''Negative'' (- 0.4)]"
    by (simp add: spec_recent_def sample_lib_def sample_entry_def sample_timestamps_def
        sample_store_def timedelta_days_def)
  from get_recent_entries_window [OF g p, of 7] f show ?thesis by metis
qed

section \<open>The filters of the Journal History page\<close>

lemma days_map_not_all_time: "map_of days_map days_filter = Some days \<Longrightarrow> days_filter \<noteq> ''All time''"
  by (auto simp: days_map_def)

text \<open>
  Keeping the members of the separately computed recent subset is the recency filter
  itself, for every number of days.
\<close>

lemma filter_conj_member:
  "filter (\<lambda>e. Q e \<and> e \<in> set es \<and> P e) es = filter (\<lambda>e. Q e \<and> P e) es"
  by (rule filter_cong) auto

lemma filter_member_recent:
  "filter (\<lambda>e. e \<in> set (filter P es)) (filter Q es) = filter (\<lambda>e. Q e \<and> P e) es"
  by (simp add: filter_conj_member)

text \<open>
  C8: on a store with a non-empty entry list \<open>es\<close> whose timestamps parse, for a
  selected label other than the sentinel \<open>All\<close> and a selected window of \<open>days\<close> days, the
  page's two steps (filter by label, then keep the members of the recent subset that
  \<open>get_recent_entries\<close> computes) give the same list as the direct filter by the
  conjunction of the label test and the recency test.
\<close>

theorem journal_history_conjunctive:
  assumes "fst (get_all_entries L w) = Inr es" and "es \<noteq> []"
    and "\<forall>e \<in> set es. strptime L (timestamp e) \<noteq> None"
    and "sentiment_filter \<noteq> ''All''"
    and "map_of days_map days_filter = Some days"
  shows "fst (journal_history L sentiment_filter days_filter w) =
           Inr (Some (spec_conjunctive_filter (strptime L) (clock L (ticks w))
                        sentiment_filter days es))"
proof -
  from get_all_entries_nonempty [OF assms(1,2)]
  have g: "get_all_entries L w = (Inr es, w)" .
  obtain w2 where r: "get_recent_entries L days w =
      (Inr (filter (spec_recent (strptime L) (clock L (ticks w)) days) es), w2)"
    using get_recent_entries_parsed [OF assms(1,3), of days]
    by (cases "get_recent_entries L days w") simp
  from days_map_not_all_time [OF assms(5)] have d: "days_filter \<noteq> ''All time''" .
  show ?thesis
    using g r d assms(2,4,5)
    by (simp add: journal_history_def Let_def spec_conjunctive_filter_def
        filter_conj_member)
qed

theorem journal_history_conjunctive_witness:
  "fst (journal_history sample_lib ''Positive'' ''Last 7 days''
          (sample_store [sample_entry ''2024-01-08 09:59'' ''Positive'' 0.5,
                         sample_entry ''2024-01-08 10:00'' ''Positive'' 0.3,
                         sample_entry ''2024-01-14 18:30'' ''Negative'' (- 0.4),
                         sample_entry ''2024-01-15 10:00'' ''Positive'' 0.9])) =
     Inr (Some [sample_entry ''2024-01-08 10:00'' ''Positive'' 0.3,
                sample_entry ''2024-01-15 10:00'' ''Positive'' 0.9])"
proof -
  let ?es = "[sample_entry ''2024-01-08 09:59'' ''Positive'' 0.5,
              sample_entry ''2024-01-08 10:00'' ''Positive'' 0.3,
              sample_entry ''2024-01-14 18:30'' ''Negative'' (- 0.4),
              sample_entry ''2024-01-15 10:00'' ''Positive'' 0.9]"
  have g: "fst (get_all_entries sample_lib (sample_store ?es)) = Inr ?es"
    by (simp add: get_all_entries_Stored sample_store_def)
  have n: "?es \<noteq> []" by simp
  have p: "\<forall>e \<in> set ?es. strptime sample_lib (timestamp e) \<noteq> None"
    by (simp add: sample_lib_def sample_entry_def sample_timestamps_def)
  have a: "''Positive'' \<noteq> ''All''" by simp
  have m: "map_of days_map ''Last 7 days'' = Some 7" by (simp add: days_map_def)
  have f: "spec_conjunctive_filter (strptime sample_lib)
             (clock sample_lib (ticks (sample_store ?es))) ''Positive'' 7 ?es =
           [sample_entry ''2024-01-08 10:00'' ''Positive'' 0.3,
            sample_entry ''2024-01-15 10:00'' ''Positive'' 0.9]"
    by (simp add: spec_conjunctive_filter_def spec_recent_def sample_lib_def
        sample_entry_def sample_timestamps_def sample_store_def timedelta_days_def)
  from journal_history_conjunctive [OF g n p a m] f show ?thesis by simp
qed

section \<open>Appending entries\<close>

lemma add_entry_Stored:
  assumes "data_file w = Stored data" and "entries data = Some old"
  shows "\<exists>e w1 data1. add_entry L tx label sc w = (Inr e, w1) \<and>
           timestamp e = strftime L (clock L (ticks w)) \<and>
           entry_text e = tx \<and> sentiment e = label \<and> score e = sc \<and>
           data_file w1 = Stored data1 \<and> entries data1 = Some (old @ [e])"
  using assms by (simp add: add_entry_def load_data_Stored now_def save_data_def Let_def)

lemma add_entry_fallback:
  assumes "data_file w = Missing \<or> data_file w = Corrupt"
  shows "\<exists>e w1 data1. add_entry L tx label sc w = (Inr e, w1) \<and>
           timestamp e = strftime L (clock L (Suc (ticks w))) \<and>
           entry_text e = tx \<and> sentiment e = label \<and> score e = sc \<and>
           data_file w1 = Stored data1 \<and> entries data1 = Some [e]"
  using assms by (simp add: add_entry_def load_data_fallback now_def save_data_def Let_def)

lemma add_entry_no_entries_key:
  assumes "data_file w = Stored data" and "entries data = None"
  shows "fst (add_entry L tx label sc w) = Inl (KeyError ''entries'')"
  using assms by (simp add: add_entry_def load_data_Stored now_def)

lemma add_entry_appends:
  assumes "entries_key_present w" and "fst (get_all_entries L w) = Inr old"
  shows "\<exists>e w1 data1. add_entry L tx label sc w = (Inr e, w1) \<and>
           entry_text e = tx \<and> sentiment e = label \<and> score e = sc \<and>
           data_file w1 = Stored data1 \<and> entries data1 = Some (old @ [e])"
proof (cases "data_file w")
  case (Stored data)
  with assms(1) obtain es where es: "entries data = Some es"
    by (auto simp: entries_key_present_def)
  with Stored assms(2) have "old = es" by (simp add: get_all_entries_Stored)
  with add_entry_Stored [OF Stored es, of L tx label sc] show ?thesis by blast
next
  case Missing
  then have f: "data_file w = Missing \<or> data_file w = Corrupt" by simp
  with assms(2) have "old = []" by (simp add: get_all_entries_fallback)
  with add_entry_fallback [OF f, of L tx label sc] show ?thesis by auto
next
  case Corrupt
  then have f: "data_file w = Missing \<or> data_file w = Corrupt" by simp
  with assms(2) have "old = []" by (simp add: get_all_entries_fallback)
  with add_entry_fallback [OF f, of L tx label sc] show ?thesis by auto
qed (use assms(1) in \<open>simp_all add: entries_key_present_def\<close>)

lemma add_entry_NotUtf8:
  "data_file w = NotUtf8 \<Longrightarrow> add_entry L tx label sc w = (Inl UnicodeDecodeError, w)"
  by (simp add: add_entry_def load_data_NotUtf8)

text \<open>
  From a store whose file is missing, is text that is not JSON, or is a dictionary with
  the key \<open>entries\<close>, and whose entries are \<open>old\<close>, every sequence of calls of
  \<open>add_entry\<close> succeeds, and \<open>get_all_entries\<close> then returns \<open>old\<close> followed by the new
  entries in call order: one entry per call, with the text, label and score of that call
  unchanged.
\<close>

lemma add_entries_then_list:
  assumes "entries_key_present w" and "fst (get_all_entries L w) = Inr old"
  shows "\<exists>new w1. add_entry_calls L calls w = (Inr new, w1) \<and>
           fst (get_all_entries L w1) = Inr (old @ new) \<and>
           length new = length calls \<and>
           map (\<lambda>e. (entry_text e, sentiment e, score e)) new = calls"
  using assms
proof (induction calls arbitrary: w old)
  case Nil
  then show ?case by simp
next
  case (Cons c calls)
  obtain tx label sc where c: "c = (tx, label, sc)" by (cases c)
  from add_entry_appends [OF Cons.prems, of tx label sc]
  obtain e w1 data1 where a: "add_entry L tx label sc w = (Inr e, w1)"
      and v: "entry_text e = tx" "sentiment e = label" "score e = sc"
      and f: "data_file w1 = Stored data1" "entries data1 = Some (old @ [e])"
    by blast
  from f have k: "entries_key_present w1" by (simp add: entries_key_present_def)
  from f have g: "fst (get_all_entries L w1) = Inr (old @ [e])"
    by (simp add: get_all_entries_Stored)
  from Cons.IH [OF k g] obtain new w2
    where r: "add_entry_calls L calls w1 = (Inr new, w2)"
      and l: "fst (get_all_entries L w2) = Inr ((old @ [e]) @ new)"
      and n: "length new = length calls"
      and m: "map (\<lambda>e. (entry_text e, sentiment e, score e)) new = calls"
    by blast
  have "add_entry_calls L (c # calls) w = (Inr (e # new), w2)"
    using c a r by simp
  moreover have "fst (get_all_entries L w2) = Inr (old @ e # new)" using l by simp
  moreover have "length (e # new) = length (c # calls)" using n by simp
  moreover have "map (\<lambda>e. (entry_text e, sentiment e, score e)) (e # new) = c # calls"
    using c v m by simp
  ultimately show ?case
    by - (rule exI [of _ "e # new"], rule exI [of _ w2], simp)
qed

lemma add_entries_then_list_example:
  "\<exists>new w1. add_entry_calls sample_lib
              [(''a fine day'', ''Positive'', 0.6), ('' rain '', ''Neutral'', 0)]
              (sample_store [sample_entry ''2024-01-14 18:30'' ''Negative'' (- 0.4)]) =
              (Inr new, w1) \<and>
     fst (get_all_entries sample_lib w1) =
       Inr (sample_entry ''2024-01-14 18:30'' ''Negative'' (- 0.4) # new) \<and>
     map (\<lambda>e. (entry_text e, sentiment e, score e)) new =
       [(''a fine day'', ''Positive'', 0.6), ('' rain '', ''Neutral'', 0)]"
proof -
  let ?old = "[sample_entry ''2024-01-14 18:30'' ''Negative'' (- 0.4)]"
  have k: "entries_key_present (sample_store ?old)"
    by (simp add: entries_key_present_def sample_store_def)
  have g: "fst (get_all_entries sample_lib (sample_store ?old)) = Inr ?old"
    by (simp add: get_all_entries_Stored sample_store_def)
  from add_entries_then_list [OF k g,
      of "[(''a fine day'', ''Positive'', 0.6), ('' rain '', ''Neutral'', 0)]"]
  show ?thesis by auto
qed

text \<open>
  C3: the claim asks that from every initial state of the store the calls of \<open>add_entry\<close>
  succeed and the listing then grows by the new entries. Two states break it. On a file
  whose bytes are not valid UTF-8, \<open>add_entry\<close> raises the decoding error that
  \<open>load_data\<close> lets through, and nothing is appended. On a dictionary without the key
  \<open>entries\<close>, which \<open>get_all_entries\<close> lists as the empty sequence, \<open>add_entry\<close> raises
  \<open>KeyError\<close>, and the listing is still empty afterwards.
\<close>

theorem add_entry_fails_on_unread_or_keyless_store:
  "add_entry_calls L [(tx, label, sc)] \<lparr>data_file = NotUtf8, ticks = 0\<rparr> =
     (Inl UnicodeDecodeError, \<lparr>data_file = NotUtf8, ticks = 0\<rparr>) \<and>
   fst (get_all_entries L
          \<lparr>data_file = Stored \<lparr>entries = None, created_at = c, last_updated = u\<rparr>,
           ticks = 0\<rparr>) = Inr [] \<and>
   fst (add_entry_calls L [(tx, label, sc)]
          \<lparr>data_file = Stored \<lparr>entries = None, created_at = c, last_updated = u\<rparr>,
           ticks = 0\<rparr>) = Inl (KeyError ''entries'') \<and>
   fst (get_all_entries L
          (snd (add_entry_calls L [(tx, label, sc)]
                  \<lparr>data_file = Stored \<lparr>entries = None, created_at = c, last_updated = u\<rparr>,
                   ticks = 0\<rparr>))) = Inr []"
  by (simp add: add_entry_def get_all_entries_def load_data_def read_json_def now_def)

section \<open>The files that the data manager writes\<close>

text \<open>
  Every file that \<open>save_data\<close> writes has the key \<open>last_updated\<close>, and the dictionaries
  built by \<open>initialize_data_file\<close> and \<open>clear_all_data\<close> have all three keys, so the
  structured export of such a file has them too.
\<close>

lemma save_data_last_updated:
  "\<exists>data1. data_file (save_data L data w) = Stored data1 \<and> last_updated data1 \<noteq> None \<and>
     entries data1 = entries data \<and> created_at data1 = created_at data"
  by (simp add: save_data_def now_def)

lemma export_json_Stored:
  "data_file w = Stored data \<Longrightarrow> fst (export_data L ''json'' w) = Inr (JsonPayload data)"
  by (simp add: export_data_def str_lower_def lower_char_def load_data_Stored)

lemma export_json_after_initialize:
  assumes "data_file w = Missing"
  shows "\<exists>data. fst (export_data L ''json'' (initialize_data_file L w)) = Inr (JsonPayload data) \<and>
           entries data = Some [] \<and> created_at data \<noteq> None \<and> last_updated data \<noteq> None"
proof -
  obtain data1 where d: "data_file (initialize_data_file L w) = Stored data1"
      "last_updated data1 \<noteq> None" "entries data1 = Some []" "created_at data1 \<noteq> None"
    using assms by (simp add: initialize_data_file_def save_data_def now_def)
  with export_json_Stored [OF d(1), of L] show ?thesis by simp
qed

lemma export_json_after_clear:
  "\<exists>data. fst (export_data L ''json'' (clear_all_data L w)) = Inr (JsonPayload data) \<and>
     entries data = Some [] \<and> created_at data \<noteq> None \<and> last_updated data \<noteq> None"
proof -
  obtain data1 where d: "data_file (clear_all_data L w) = Stored data1"
      "last_updated data1 \<noteq> None" "entries data1 = Some []" "created_at data1 \<noteq> None"
    by (simp add: clear_all_data_def save_data_def now_def)
  with export_json_Stored [OF d(1), of L] show ?thesis by simp
qed

lemma export_json_after_add_entry:
  assumes "entries_key_present w"
  shows "\<exists>data. fst (export_data L ''json'' (snd (add_entry L tx label sc w))) =
             Inr (JsonPayload data) \<and>
           entries data \<noteq> None \<and> last_updated data \<noteq> None"
proof (cases "data_file w")
  case (Stored data0)
  with assms obtain es where es: "entries data0 = Some es"
    by (auto simp: entries_key_present_def)
  obtain data1 where d: "data_file (snd (add_entry L tx label sc w)) = Stored data1"
      "entries data1 \<noteq> None" "last_updated data1 \<noteq> None"
    using Stored es
    by (simp add: add_entry_def load_data_Stored now_def save_data_def Let_def)
  with export_json_Stored [OF d(1), of L] show ?thesis by simp
next
  case Missing
  then have f: "data_file w = Missing \<or> data_file w = Corrupt" by simp
  obtain data1 where d: "data_file (snd (add_entry L tx label sc w)) = Stored data1"
      "entries data1 \<noteq> None" "last_updated data1 \<noteq> None"
    using f by (simp add: add_entry_def load_data_fallback now_def save_data_def Let_def)
  with export_json_Stored [OF d(1), of L] show ?thesis by simp
next
  case Corrupt
  then have f: "data_file w = Missing \<or> data_file w = Corrupt" by simp
  obtain data1 where d: "data_file (snd (add_entry L tx label sc w)) = Stored data1"
      "entries data1 \<noteq> None" "last_updated data1 \<noteq> None"
    using f by (simp add: add_entry_def load_data_fallback now_def save_data_def Let_def)
  with export_json_Stored [OF d(1), of L] show ?thesis by simp
qed (use assms in \<open>simp_all add: entries_key_present_def\<close>)

end
